theory Spec2Isabelle
  imports Main
begin

section \<open>Platform values: strings, numbers, JSON\<close>

text \<open>
  Strings are \<open>string\<close> (8-bit characters).  \<open>trim\<close> is \<open>String.prototype.trim\<close>:
  it removes the white space and line terminators of ECMAScript at both ends; in the
  8-bit range these are TAB, LF, VT, FF, CR, SP and NBSP.
\<close>

definition js_whitespace :: "char \<Rightarrow> bool" where
  "js_whitespace c =
     (c = CHR 0x09 \<or> c = CHR 0x0A \<or> c = CHR 0x0B \<or> c = CHR 0x0C \<or> c = CHR 0x0D
      \<or> c = CHR 0x20 \<or> c = CHR 0xA0)"

definition trim :: "string \<Rightarrow> string" where
  "trim s = rev (dropWhile js_whitespace (rev (dropWhile js_whitespace s)))"

definition startsWith :: "string \<Rightarrow> string \<Rightarrow> bool" where
  "startsWith s p = (take (length p) s = p)"

text \<open>
  \<open>toUpperCase\<close> on the ASCII letters; characters from \<open>0x80\<close> on are left as they
  are (none of them has an upper case in \<open>Y\<close>, \<open>E\<close>, \<open>S\<close>, the only letters the
  program compares the result with).
\<close>

definition upper_char :: "char \<Rightarrow> char" where
  "upper_char c =
     (case map_of (zip ''abcdefghijklmnopqrstuvwxyz'' ''ABCDEFGHIJKLMNOPQRSTUVWXYZ'') c of
        Some u \<Rightarrow> u
      | None \<Rightarrow> c)"

definition toUpperCase :: "string \<Rightarrow> string" where
  "toUpperCase s = map upper_char s"

text \<open>The decimal rendering of a number inside a template literal.\<close>

definition digit_char :: "nat \<Rightarrow> char" where
  "digit_char d = ''0123456789'' ! d"

function dec_nat :: "nat \<Rightarrow> string" where
  "dec_nat n = (if n < 10 then [digit_char n] else dec_nat (n div 10) @ [digit_char (n mod 10)])"
  by pat_completeness auto
termination
  by (relation "measure id") auto

declare dec_nat.simps [simp del]

definition dec_int :: "int \<Rightarrow> string" where
  "dec_int i = (if i < 0 then CHR ''-'' # dec_nat (nat (- i)) else dec_nat (nat i))"

text \<open>
  A parsed JSON value.  An object is the list of its properties; \<open>get_prop\<close> reads one, and
  is \<open>None\<close> where JavaScript gives \<open>undefined\<close>.  Numbers are not inspected by the
  program, so integers stand for them.
\<close>

datatype json =
    JNull
  | JBool bool
  | JNum int
  | JStr string
  | JArr "json list"
  | JObj "(string \<times> json) list"

fun get_prop :: "json \<Rightarrow> string \<Rightarrow> json option" where
  "get_prop (JObj kvs) k = map_of kvs k"
| "get_prop _ k = None"

record 'b http_response =
  status :: nat
  payload :: 'b

text \<open>
  What a handler does to the outside world, in order: the helper processes it spawns,
  the requests it sends to the language model, the requests it sends to the screenshot
  endpoint.
\<close>

datatype effect =
    Spawn string
  | LlmCall
  | FetchScreenshot string

section \<open>The screenshot endpoint (\<open>src/app/api/screenshot/route.ts\<close>)\<close>

text \<open>
  \<open>RequestSchema = z.object({ url: z.string().url() })\<close>.  The URL test of the
  validation library is a parameter \<open>is_url\<close>.
\<close>

definition RequestSchema_parse :: "(string \<Rightarrow> bool) \<Rightarrow> json \<Rightarrow> string option" where
  "RequestSchema_parse is_url b =
     (case get_prop b ''url'' of
        Some (JStr u) \<Rightarrow> if is_url u then Some u else None
      | _ \<Rightarrow> None)"

text \<open>
  The child process is seen through its events: data on standard output, data on
  standard error, \<open>error\<close>, and at last \<open>close\<close> with the exit code (\<open>null\<close>, here
  \<open>None\<close>, when a signal ended the process).
\<close>

datatype proc_event =
    StdoutData string
  | StderrData string
  | ProcError string

record helper_run =
  events :: "proc_event list"
  exit_code :: "int option"

record proc_state =
  stdoutData :: string
  stderrData :: string
  processError :: "string option"

definition initial_state :: proc_state where
  "initial_state = \<lparr>stdoutData = [], stderrData = [], processError = None\<rparr>"

fun on_event :: "proc_state \<Rightarrow> proc_event \<Rightarrow> proc_state" where
  "on_event st (StdoutData d) = st\<lparr>stdoutData := stdoutData st @ d\<rparr>"
| "on_event st (StderrData d) =
     (let errLine = trim d
      in if errLine \<noteq> [] then st\<lparr>stderrData := stderrData st @ errLine @ [CHR 0x0A]\<rparr> else st)"
| "on_event st (ProcError m) = st\<lparr>processError := Some m\<rparr>"

definition collect :: "proc_event list \<Rightarrow> proc_state" where
  "collect evs = foldl on_event initial_state evs"

datatype shot_body =
    ShotSuccess string
  | ShotFailure string

definition show_code :: "int option \<Rightarrow> string" where
  "show_code c = (case c of None \<Rightarrow> ''null'' | Some i \<Rightarrow> dec_int i)"

definition spawn_failure_message :: "string \<Rightarrow> string" where
  "spawn_failure_message m = ''Failed to start screenshot process: '' @ m"

definition exit_failure_message :: "int option \<Rightarrow> string \<Rightarrow> string" where
  "exit_failure_message code err =
     ''Screenshot script failed (code '' @ show_code code
     @ ''). Check server logs. Output: '' @ err"

definition empty_output_message :: string where
  "empty_output_message = ''Screenshot script succeeded but returned no data.''"

definition on_close :: "proc_state \<Rightarrow> int option \<Rightarrow> shot_body http_response" where
  "on_close st code =
     (case processError st of
        Some m \<Rightarrow> \<lparr>status = 500, payload = ShotFailure (spawn_failure_message m)\<rparr>
      | None \<Rightarrow>
          if code \<noteq> Some 0 then
            \<lparr>status = 500, payload = ShotFailure (exit_failure_message code (stderrData st))\<rparr>
          else if stdoutData st = [] then
            \<lparr>status = 500, payload = ShotFailure empty_output_message\<rparr>
          else
            \<lparr>status = 200, payload = ShotSuccess (stdoutData st)\<rparr>)"



text \<open>
  The handler.  The body is \<open>None\<close> when \<open>req.json()\<close> rejects.  The run of the helper
  is what the operating system answers once the process is spawned; the handler reads it
  only on that path.
\<close>

definition screenshot_POST ::
  "(string \<Rightarrow> bool) \<Rightarrow> json option \<Rightarrow> helper_run \<Rightarrow> shot_body http_response \<times> effect list" where
  "screenshot_POST is_url body run =
     (case Option.bind body (RequestSchema_parse is_url) of
        None \<Rightarrow> (\<lparr>status = 400, payload = ShotFailure ''Invalid request body or URL.''\<rparr>, [])
      | Some url \<Rightarrow> (on_close (collect (events run)) (exit_code run), [Spawn url]))"

text \<open>
  The rewritten handler of the same endpoint validates inside an immediately invoked
  async function whose \<open>catch\<close> throws the 400 response it builds; the \<open>await\<close>
  rethrows it, so the handler itself throws that response (\<open>Inl\<close>) and the test
  \<open>validatedData instanceof NextResponse\<close> after it is never reached.  The message is
  the one of the error the body raised.  The rest is as before.
\<close>

definition screenshot_POST_rewritten ::
  "(string \<Rightarrow> bool) \<Rightarrow> json option \<Rightarrow> string \<Rightarrow> helper_run
     \<Rightarrow> (shot_body http_response + shot_body http_response) \<times> effect list" where
  "screenshot_POST_rewritten is_url body errorMessage run =
     (case Option.bind body (RequestSchema_parse is_url) of
        None \<Rightarrow> (Inl \<lparr>status = 400, payload = ShotFailure errorMessage\<rparr>, [])
      | Some url \<Rightarrow> (Inr (on_close (collect (events run)) (exit_code run)), [Spawn url]))"

section \<open>The language-model wrappers (\<open>src/utils/gemini.ts\<close>)\<close>

text \<open>
  An exception is a value: a computation that may throw has the type \<open>string + 'a\<close>,
  with \<open>Inl\<close> the message of what was thrown.  \<open>try_catch\<close> is a \<open>try\<close> block with
  its \<open>catch\<close>.
\<close>

definition try_catch :: "string + 'a \<Rightarrow> (string \<Rightarrow> string + 'a) \<Rightarrow> string + 'a" where
  "try_catch body handler = (case body of Inl e \<Rightarrow> handler e | Inr v \<Rightarrow> Inr v)"

text \<open>
  The answer of the model library to one \<open>generateContent\<close> request.  The request
  itself may reject (\<open>Inl\<close>); on the response, \<open>text()\<close> may throw, and
  \<open>functionCalls()\<close> may throw or give \<open>undefined\<close> (\<open>None\<close>) or an array.  A
  function call has a name and its \<open>args\<close>, which the wrapper passes on as they come:
  left out (\<open>undefined\<close>), \<open>null\<close>, or an object, of which the program reads the
  property \<open>url\<close> only (a string by the declared schema, \<open>None\<close> when left out).
\<close>

datatype call_args =
    ArgsUndefined
  | ArgsNull
  | ArgsObject "string option"

record fcall =
  fc_name :: string
  fc_args :: call_args

record llm_response =
  text_result :: "string + string"
  calls_result :: "string + fcall list option"

type_synonym llm_outcome = "string + llm_response"

datatype role = User | Assistant | System

record ChatMessage =
  role :: role
  content :: string
  timestamp :: "nat option"
  isScreenshot :: "bool option"
  screenshotUrl :: "string option"
  screenshotBase64 :: "string option"

record ChatSession =
  id_session :: string
  messages :: "ChatMessage list"
  createdAt :: nat
  updatedAt :: nat

record FunctionCallResult =
  text_r :: string
  functionCall :: "fcall option"

text \<open>
  \<open>extractUrlFromPrompt\<close>.  \<open>new_URL s\<close> is \<open>new URL(s).toString()\<close> of the platform,
  \<open>None\<close> when the constructor throws.
\<close>

definition extractUrlFromPrompt ::
  "(string \<Rightarrow> string option) \<Rightarrow> llm_outcome \<Rightarrow> string + string option" where
  "extractUrlFromPrompt new_URL out =
     try_catch
       (case out of
          Inl e \<Rightarrow> Inl e
        | Inr resp \<Rightarrow>
            (case text_result resp of
               Inl e \<Rightarrow> Inl e
             | Inr t \<Rightarrow>
                 (let text = trim t
                  in if text = ''NO_URL_FOUND'' then Inr None
                     else
                       (case new_URL text of
                          Some url \<Rightarrow> Inr (Some url)
                        | None \<Rightarrow>
                            if \<not> startsWith text ''http://'' \<and> \<not> startsWith text ''https://''
                            then
                              (case new_URL (''https://'' @ text) of
                                 Some urlWithProtocol \<Rightarrow> Inr (Some urlWithProtocol)
                               | None \<Rightarrow> Inr None)
                            else Inr None))))
       (\<lambda>error. Inr None)"

definition detectScreenshotIntent :: "llm_outcome \<Rightarrow> string + bool" where
  "detectScreenshotIntent out =
     try_catch
       (case out of
          Inl e \<Rightarrow> Inl e
        | Inr resp \<Rightarrow>
            (case text_result resp of
               Inl e \<Rightarrow> Inl e
             | Inr t \<Rightarrow> Inr (toUpperCase (trim t) = ''YES'')))
       (\<lambda>error. Inr False)"

definition apology :: string where
  "apology =
     ''I'm sorry, I encountered an error while processing your message. Please try again.''"

text \<open>
  \<open>generateChatResponse\<close>, the version with function calling.  The messages only
  shape the request; the answer is the library's.
\<close>

definition generateChatResponse ::
  "ChatMessage list \<Rightarrow> llm_outcome \<Rightarrow> string + FunctionCallResult" where
  "generateChatResponse msgs out =
     try_catch
       (case out of
          Inl e \<Rightarrow> Inl e
        | Inr resp \<Rightarrow>
            (case text_result resp of
               Inl e \<Rightarrow> Inl e
             | Inr responseText \<Rightarrow>
                 (case try_catch
                         (case calls_result resp of
                            Inl e \<Rightarrow> Inl e
                          | Inr (Some (fc # rest)) \<Rightarrow>
                              Inr (Some \<lparr>text_r = responseText, functionCall = Some fc\<rparr>)
                          | Inr _ \<Rightarrow> Inr None)
                         (\<lambda>error. Inr None) of
                    Inr (Some r) \<Rightarrow> Inr r
                  | _ \<Rightarrow> Inr \<lparr>text_r = responseText, functionCall = None\<rparr>)))
       (\<lambda>error. Inr \<lparr>text_r = apology, functionCall = None\<rparr>)"

text \<open>
  \<open>generateChatResponse\<close>, the earlier version, which answers text only.  \<open>filter\<close>
  builds a new array of the same message objects, so \<open>validMessages\<close> is a list of
  references into \<open>messages\<close> (here: of indices), and the assignment to
  \<open>validMessages[0].content\<close> writes the object that the session holds.  The function
  therefore returns the messages as it leaves them, with its answer.
\<close>

definition context_prefix :: string where
  "context_prefix =
     ''Context: You are a helpful assistant that can take screenshots of websites when asked. ''
     @ ''Be conversational and friendly. If I ask about taking a screenshot, let me know you ''
     @ ''can help with that.'' @ [CHR 0x0A, CHR 0x0A] @ ''User message: ''"

definition validMessages :: "ChatMessage list \<Rightarrow> nat list" where
  "validMessages msgs =
     filter (\<lambda>i. role (msgs ! i) = User \<or> role (msgs ! i) = Assistant) [0 ..< length msgs]"

definition generateChatResponse_text ::
  "ChatMessage list \<Rightarrow> llm_outcome \<Rightarrow> ChatMessage list \<times> (string + string)" where
  "generateChatResponse_text msgs out =
     (let valid = validMessages msgs;
          msgs' =
            (case valid of
               [i] \<Rightarrow>
                 if role (msgs ! i) = User
                 then msgs[i := (msgs ! i)\<lparr>content := context_prefix @ content (msgs ! i)\<rparr>]
                 else msgs
             | _ \<Rightarrow> msgs)
      in (msgs',
          try_catch
            (case out of
               Inl e \<Rightarrow> Inl e
             | Inr resp \<Rightarrow> text_result resp)
            (\<lambda>error. Inr apology)))"

section \<open>The chat endpoint (\<open>src/app/api/chat/route.ts\<close>)\<close>

text \<open>
  \<open>chatSessions\<close>, the map from session ids to sessions.  A session object is reached
  through the map only, so writing a field of the session is an update of the map at the
  key that holds it.
\<close>

type_synonym store = "string \<rightharpoonup> ChatSession"

text \<open>
  \<open>MessageSchema\<close>: \<open>sessionId\<close> a string, \<open>null\<close> or left out; \<open>message\<close> a string
  of at least one character.
\<close>

definition MessageSchema_parse :: "json \<Rightarrow> (string option \<times> string) option" where
  "MessageSchema_parse b =
     (case get_prop b ''message'' of
        Some (JStr message) \<Rightarrow>
          if length message < 1 then None
          else
            (case get_prop b ''sessionId'' of
               None \<Rightarrow> Some (None, message)
             | Some JNull \<Rightarrow> Some (None, message)
             | Some (JStr s) \<Rightarrow> Some (Some s, message)
             | Some _ \<Rightarrow> None)
      | _ \<Rightarrow> None)"

text \<open>
  The request to the screenshot endpoint either throws (the message of the error, when it
  is an \<open>Error\<close>) or reaches the endpoint of this program, which then runs the helper.
\<close>

datatype fetch_outcome =
    FetchThrows "string option"
  | FetchDelivers helper_run

text \<open>
  What one turn takes from outside: the identifier \<open>uuidv4()\<close> gives, the readings of
  the clock, the answer of the language model, the outcome of the request to the
  screenshot endpoint, and the message of the error that a rejected body raises.
\<close>

record turn_env =
  uuid :: string
  now_created :: nat
  now_updated :: nat
  now_user :: nat
  now_assistant :: nat
  llm :: llm_outcome
  fetched :: fetch_outcome
  reject_message :: string

text \<open>
  The value of \<open>extractedUrl\<close>: \<open>null\<close>, \<open>undefined\<close> (the answer then has no such
  key) or a string.
\<close>

datatype url_value =
    UrlNull
  | UrlUndefined
  | UrlString string

record chat_ok =
  sessionId :: string
  response :: ChatMessage
  extractedUrl :: url_value
  isScreenshotIntent :: bool

datatype chat_body =
    ChatOk chat_ok
  | ChatError string

definition resolve_session ::
  "store \<Rightarrow> string option \<Rightarrow> turn_env \<Rightarrow> store \<times> string \<times> ChatSession" where
  "resolve_session st sid env =
     (case (case sid of
              Some s \<Rightarrow> if s \<noteq> [] then map_option (Pair s) (st s) else None
            | None \<Rightarrow> None) of
        Some (s, existingSession) \<Rightarrow>
          (let session = existingSession\<lparr>updatedAt := now_updated env\<rparr>
           in (st(s \<mapsto> session), s, session))
      | None \<Rightarrow>
          (let newSessionId = uuid env;
               newSession = \<lparr>id_session = newSessionId, messages = [],
                             createdAt = now_created env, updatedAt = now_updated env\<rparr>
           in (st(newSessionId \<mapsto> newSession), newSessionId, newSession)))"

definition userMessage :: "string \<Rightarrow> turn_env \<Rightarrow> ChatMessage" where
  "userMessage message env =
     \<lparr>role = User, content = message, timestamp = Some (now_user env),
      isScreenshot = None, screenshotUrl = None, screenshotBase64 = None\<rparr>"

definition text_message :: "string \<Rightarrow> turn_env \<Rightarrow> ChatMessage" where
  "text_message c env =
     \<lparr>role = Assistant, content = c, timestamp = Some (now_assistant env),
      isScreenshot = None, screenshotUrl = None, screenshotBase64 = None\<rparr>"

definition fetch_screenshot ::
  "(string \<Rightarrow> bool) \<Rightarrow> string \<Rightarrow> fetch_outcome \<Rightarrow> (string option + shot_body) \<times> effect list" where
  "fetch_screenshot is_url url f =
     (case f of
        FetchThrows m \<Rightarrow> (Inl m, [FetchScreenshot url])
      | FetchDelivers run \<Rightarrow>
          (case screenshot_POST is_url (Some (JObj [(''url'', JStr url)])) run of
             (r, effs) \<Rightarrow> (Inr (payload r), FetchScreenshot url # effs)))"

definition is_intent :: "FunctionCallResult \<Rightarrow> bool" where
  "is_intent r =
     (case functionCall r of Some fc \<Rightarrow> fc_name fc = ''take_screenshot'' | None \<Rightarrow> False)"

text \<open>
  Reading \<open>response.functionCall.args.url\<close> of a \<open>take_screenshot\<close> call throws a
  \<open>TypeError\<close> when \<open>args\<close> is \<open>undefined\<close> or \<open>null\<close>; its message is the platform's.
\<close>

definition type_error_message :: "call_args \<Rightarrow> string" where
  "type_error_message a =
     (case a of
        ArgsNull \<Rightarrow> ''Cannot read properties of null (reading 'url')''
      | _ \<Rightarrow> ''Cannot read properties of undefined (reading 'url')'')"

definition extracted_url :: "FunctionCallResult \<Rightarrow> string + url_value" where
  "extracted_url r =
     (case functionCall r of
        Some fc \<Rightarrow>
          if fc_name fc = ''take_screenshot'' then
            (case fc_args fc of
               ArgsObject (Some u) \<Rightarrow> Inr (UrlString u)
             | ArgsObject None \<Rightarrow> Inr UrlUndefined
             | a \<Rightarrow> Inl (type_error_message a))
          else Inr UrlNull
      | None \<Rightarrow> Inr UrlNull)"

definition truthy :: "url_value \<Rightarrow> bool" where
  "truthy v = (case v of UrlString s \<Rightarrow> s \<noteq> [] | _ \<Rightarrow> False)"

definition no_url_message :: string where
  "no_url_message =
     ''I'd like to take a screenshot, but I couldn't process the URL. ''
     @ ''Could you please provide a valid URL?''"

definition assistantMessage ::
  "(string \<Rightarrow> bool) \<Rightarrow> FunctionCallResult \<Rightarrow> url_value \<Rightarrow> turn_env
     \<Rightarrow> ChatMessage \<times> effect list" where
  "assistantMessage is_url r url_read env =
     (if is_intent r \<and> truthy url_read then
        (case url_read of
           UrlString url \<Rightarrow>
             (case fetch_screenshot is_url url (fetched env) of
                (Inr (ShotSuccess finalScreenshotData), effs) \<Rightarrow>
                  (\<lparr>role = Assistant, content = text_r r, timestamp = Some (now_assistant env),
                    isScreenshot = Some True, screenshotUrl = Some url,
                    screenshotBase64 = Some finalScreenshotData\<rparr>, effs)
              | (Inr (ShotFailure err), effs) \<Rightarrow>
                  (text_message
                     (''I tried to take a screenshot of '' @ url
                      @ '', but encountered an error: '' @ err) env, effs)
              | (Inl thrown, effs) \<Rightarrow>
                  (text_message
                     (''I tried to take a screenshot, but encountered an error: ''
                      @ (case thrown of Some m \<Rightarrow> m | None \<Rightarrow> ''Unknown error'')) env, effs))
         | _ \<Rightarrow> (text_message no_url_message env, []))
      else if is_intent r then (text_message no_url_message env, [])
      else (text_message (text_r r) env, []))"

text \<open>
  The turn.  Each \<open>push\<close> writes the session object, which the map holds under \<open>key\<close>.
  \<open>extractedUrl\<close> is read after the user's message is pushed and outside the inner
  \<open>try\<close>, so what it throws reaches the \<open>catch\<close> of the handler.
\<close>

definition chat_POST ::
  "(string \<Rightarrow> bool) \<Rightarrow> store \<Rightarrow> json option \<Rightarrow> turn_env
     \<Rightarrow> store \<times> chat_body http_response \<times> effect list" where
  "chat_POST is_url st body env =
     (case Option.bind body MessageSchema_parse of
        None \<Rightarrow> (st, \<lparr>status = 500, payload = ChatError (reject_message env)\<rparr>, [])
      | Some (sid, message) \<Rightarrow>
          (case resolve_session st sid env of
             (st1, key, session) \<Rightarrow>
               (let session1 = session\<lparr>messages := messages session @ [userMessage message env]\<rparr>;
                    st2 = st1(key \<mapsto> session1)
                in case generateChatResponse (messages session1) (llm env) of
                     Inl e \<Rightarrow> (st2, \<lparr>status = 500, payload = ChatError e\<rparr>, [LlmCall])
                   | Inr r \<Rightarrow>
                       (case extracted_url r of
                          Inl e \<Rightarrow> (st2, \<lparr>status = 500, payload = ChatError e\<rparr>, [LlmCall])
                        | Inr url_read \<Rightarrow>
                            (case assistantMessage is_url r url_read env of
                               (am, effs) \<Rightarrow>
                                 (st2(key \<mapsto> session1\<lparr>messages := messages session1 @ [am]\<rparr>),
                                  \<lparr>status = 200,
                                   payload = ChatOk \<lparr>sessionId = id_session session1,
                                                     response = am,
                                                     extractedUrl = url_read,
                                                     isScreenshotIntent = is_intent r\<rparr>\<rparr>,
                                  LlmCall # effs))))))"

text \<open>The history lookup.  The query parameter is \<open>None\<close> when the URL has none.\<close>

datatype history_body =
    HistoryOk string "ChatMessage list" nat nat
  | HistoryError string

definition chat_GET :: "store \<Rightarrow> string option \<Rightarrow> store \<times> history_body http_response" where
  "chat_GET st q =
     (case (case q of Some s \<Rightarrow> if s \<noteq> [] then Some s else None | None \<Rightarrow> None) of
        None \<Rightarrow> (st, \<lparr>status = 400, payload = HistoryError ''Session ID is required''\<rparr>)
      | Some s \<Rightarrow>
          (case st s of
             None \<Rightarrow> (st, \<lparr>status = 404, payload = HistoryError ''Session not found''\<rparr>)
           | Some session \<Rightarrow>
               (st, \<lparr>status = 200,
                     payload = HistoryOk (id_session session) (messages session)
                                 (createdAt session) (updatedAt session)\<rparr>)))"

section \<open>The earlier chat turn, with two model calls\<close>

text \<open>
  The earlier \<open>POST\<close> of the chat endpoint asks the model first whether the message
  wants a screenshot (\<open>intent_out\<close>), then for the URL (\<open>url_out\<close>), and answers an
  ordinary message with the text-only \<open>generateChatResponse\<close> (on \<open>llm env\<close>).
\<close>

definition no_url_message_twocall :: string where
  "no_url_message_twocall =
     ''I'd be happy to take a screenshot for you, but I couldn't identify a specific website ''
     @ ''URL in your request. Could you please provide the URL of the website you'd like me ''
     @ ''to capture?''"

definition default_error :: string where
  "default_error = ''An error occurred while processing your message.''"

definition screenshot_message_twocall ::
  "(string \<Rightarrow> bool) \<Rightarrow> string \<Rightarrow> turn_env \<Rightarrow> ChatMessage \<times> effect list" where
  "screenshot_message_twocall is_url url env =
     (case fetch_screenshot is_url url (fetched env) of
        (Inr (ShotSuccess screenshotData), effs) \<Rightarrow>
          (\<lparr>role = Assistant, content = ''I've taken a screenshot of '' @ url @ '' for you.'',
            timestamp = Some (now_assistant env), isScreenshot = Some True,
            screenshotUrl = Some url, screenshotBase64 = Some screenshotData\<rparr>, effs)
      | (Inr (ShotFailure err), effs) \<Rightarrow>
          (text_message
             (''I tried to take a screenshot of '' @ url
              @ '', but encountered an error: '' @ err) env, effs)
      | (Inl thrown, effs) \<Rightarrow>
          (text_message
             (''I tried to take a screenshot, but encountered an error: ''
              @ (case thrown of
                   Some m \<Rightarrow> if m \<noteq> [] then m else ''Unknown error''
                 | None \<Rightarrow> ''Unknown error'')) env, effs))"

definition chat_POST_twocall ::
  "(string \<Rightarrow> bool) \<Rightarrow> (string \<Rightarrow> string option) \<Rightarrow> store \<Rightarrow> json option \<Rightarrow> turn_env
     \<Rightarrow> llm_outcome \<Rightarrow> llm_outcome \<Rightarrow> store \<times> chat_body http_response \<times> effect list" where
  "chat_POST_twocall is_url new_URL st body env intent_out url_out =
     (case Option.bind body MessageSchema_parse of
        None \<Rightarrow>
          (st, \<lparr>status = 500,
                payload = ChatError (if reject_message env \<noteq> [] then reject_message env
                                     else default_error)\<rparr>, [])
      | Some (sid, message) \<Rightarrow>
          (case resolve_session st sid env of
             (st1, key, session) \<Rightarrow>
               (let session1 = session\<lparr>messages := messages session @ [userMessage message env]\<rparr>;
                    st2 = st1(key \<mapsto> session1)
                in case detectScreenshotIntent intent_out of
                     Inl e \<Rightarrow>
                       (st2, \<lparr>status = 500,
                              payload = ChatError (if e \<noteq> [] then e else default_error)\<rparr>,
                        [LlmCall])
                   | Inr True \<Rightarrow>
                       (case extractUrlFromPrompt new_URL url_out of
                          Inl e \<Rightarrow>
                            (st2, \<lparr>status = 500,
                                   payload = ChatError (if e \<noteq> [] then e else default_error)\<rparr>,
                             [LlmCall, LlmCall])
                        | Inr extracted \<Rightarrow>
                            (case (case extracted of
                                     Some url \<Rightarrow>
                                       if url \<noteq> [] then screenshot_message_twocall is_url url env
                                       else (text_message no_url_message_twocall env, [])
                                   | None \<Rightarrow> (text_message no_url_message_twocall env, [])) of
                               (am, effs) \<Rightarrow>
                                 (st2(key \<mapsto> session1\<lparr>messages := messages session1 @ [am]\<rparr>),
                                  \<lparr>status = 200,
                                   payload = ChatOk \<lparr>sessionId = id_session session1,
                                                     response = am,
                                                     extractedUrl =
                                                       (case extracted of
                                                          Some url \<Rightarrow> UrlString url
                                                        | None \<Rightarrow> UrlNull),
                                                     isScreenshotIntent = True\<rparr>\<rparr>,
                                  [LlmCall, LlmCall] @ effs)))
                   | Inr False \<Rightarrow>
                       (case generateChatResponse_text (messages session1) (llm env) of
                          (msgs', Inl e) \<Rightarrow>
                            (st2(key \<mapsto> session1\<lparr>messages := msgs'\<rparr>),
                             \<lparr>status = 500,
                              payload = ChatError (if e \<noteq> [] then e else default_error)\<rparr>,
                             [LlmCall, LlmCall])
                        | (msgs', Inr responseText) \<Rightarrow>
                            (let am = text_message responseText env
                             in (st2(key \<mapsto> session1\<lparr>messages := msgs' @ [am]\<rparr>),
                                 \<lparr>status = 200,
                                  payload = ChatOk \<lparr>sessionId = id_session session1,
                                                    response = am, extractedUrl = UrlNull,
                                                    isScreenshotIntent = False\<rparr>\<rparr>,
                                 [LlmCall, LlmCall]))))))"


definition reply_text :: "string \<Rightarrow> llm_outcome" where
  "reply_text t = Inr \<lparr>text_result = Inr t, calls_result = Inr None\<rparr>"







text \<open>
  A message carries the screenshot URL and the payload together or not at all; a store
  is paired when every message of every session is.
\<close>

definition paired :: "ChatMessage \<Rightarrow> bool" where
  "paired m = (screenshotUrl m = None \<longleftrightarrow> screenshotBase64 m = None)"

definition store_paired :: "store \<Rightarrow> bool" where
  "store_paired st = (\<forall>k s. st k = Some s \<longrightarrow> list_all paired (messages s))"

section \<open>Sample answers of the platform\<close>

text \<open>
  For evaluating the program on concrete inputs: a URL test that accepts what starts with
  \<open>http://\<close> or \<open>https://\<close> and has no white space, and the answers of
  \<open>new URL(s).toString()\<close> on a few strings (the constructor throws on a string without
  a scheme, and lower-cases the host and adds the root path otherwise).
\<close>

definition sample_is_url :: "string \<Rightarrow> bool" where
  "sample_is_url u =
     ((startsWith u ''http://'' \<or> startsWith u ''https://'') \<and> \<not> list_ex js_whitespace u)"

definition sample_new_URL :: "string \<Rightarrow> string option" where
  "sample_new_URL s =
     map_of
       [(''https://example.com'', ''https://example.com/''),
        (''https://example.com/'', ''https://example.com/''),
        (''https://NO_URL_FOUND'', ''https://no_url_found/''),
        (''https://github.com'', ''https://github.com/'')] s"

definition no_sessions :: store where
  "no_sessions = Map.empty"

text \<open>What a turn may take from outside, for the same purpose.\<close>

definition sample_env :: turn_env where
  "sample_env =
     \<lparr>uuid = ''3b241101-e2bb-4255-8caf-4136c566a962'',
      now_created = 1000, now_updated = 1000, now_user = 1001, now_assistant = 1002,
      llm = Inr \<lparr>text_result = Inr ''Hello!'', calls_result = Inr None\<rparr>,
      fetched = FetchThrows None,
      reject_message = ''Message is required''\<rparr>"

definition sample_shot_env :: turn_env where
  "sample_shot_env =
     \<lparr>uuid = ''9c5b94b1-35ad-49bb-b118-8e8fc24abf80'',
      now_created = 2000, now_updated = 2000, now_user = 2001, now_assistant = 2005,
      llm = Inr \<lparr>text_result = Inr ''Here it is.'',
                 calls_result = Inr (Some [\<lparr>fc_name = ''take_screenshot'',
                                           fc_args = ArgsObject (Some ''https://example.com'')\<rparr>])\<rparr>,
      fetched = FetchDelivers \<lparr>events = [StdoutData ''aGk=''], exit_code = Some 0\<rparr>,
      reject_message = ''Message is required''\<rparr>"

definition sample_no_args_env :: turn_env where
  "sample_no_args_env =
     \<lparr>uuid = ''0f8fad5b-d9cb-469f-a165-70867728950e'',
      now_created = 3000, now_updated = 3000, now_user = 3001, now_assistant = 3002,
      llm = Inr \<lparr>text_result = Inr [],
                 calls_result = Inr (Some [\<lparr>fc_name = ''take_screenshot'',
                                           fc_args = ArgsUndefined\<rparr>])\<rparr>,
      fetched = FetchThrows None,
      reject_message = ''Message is required''\<rparr>"

definition sample_session :: ChatSession where
  "sample_session =
     \<lparr>id_session = ''abc'',
      messages = [\<lparr>role = User, content = ''hi'', timestamp = Some 7, isScreenshot = None,
                   screenshotUrl = None, screenshotBase64 = None\<rparr>,
                  \<lparr>role = Assistant, content = ''Hello!'', timestamp = Some 8,
                   isScreenshot = None, screenshotUrl = None, screenshotBase64 = None\<rparr>],
      createdAt = 5, updatedAt = 6\<rparr>"

definition one_session :: store where
  "one_session = no_sessions(''abc'' \<mapsto> sample_session)"

text \<open>
  The URL extraction as the specification words it, where the sentinel is compared with
  the reply itself; everything else is read the way the code has it.
\<close>

definition url_extraction_claimed :: "(string \<Rightarrow> string option) \<Rightarrow> string \<Rightarrow> string option" where
  "url_extraction_claimed new_URL reply =
     (if reply = ''NO_URL_FOUND'' then None
      else
        (case new_URL (trim reply) of
           Some u \<Rightarrow> Some u
         | None \<Rightarrow>
             if \<not> startsWith (trim reply) ''http://'' \<and> \<not> startsWith (trim reply) ''https://''
             then new_URL (''https://'' @ trim reply)
             else None))"

section \<open>Requests in sequence\<close>

datatype request =
    PostChat "json option" turn_env
  | GetHistory "string option"

fun handle :: "(string \<Rightarrow> bool) \<Rightarrow> store \<Rightarrow> request \<Rightarrow> store" where
  "handle is_url st (PostChat body env) = fst (chat_POST is_url st body env)"
| "handle is_url st (GetHistory q) = fst (chat_GET st q)"

text \<open>
  \<open>uuidv4\<close> promises an identifier that is not empty and not in use; \<open>fresh_uuids\<close>
  says that the identifiers given along a sequence of requests keep that promise.
\<close>

fun fresh_uuid :: "store \<Rightarrow> request \<Rightarrow> bool" where
  "fresh_uuid st (PostChat body env) = (uuid env \<noteq> [] \<and> st (uuid env) = None)"
| "fresh_uuid st (GetHistory q) = True"

fun fresh_uuids :: "(string \<Rightarrow> bool) \<Rightarrow> store \<Rightarrow> request list \<Rightarrow> bool" where
  "fresh_uuids is_url st [] = True"
| "fresh_uuids is_url st (r # rs) = (fresh_uuid st r \<and> fresh_uuids is_url (handle is_url st r) rs)"

fun handle_all :: "(string \<Rightarrow> bool) \<Rightarrow> store \<Rightarrow> request list \<Rightarrow> store" where
  "handle_all is_url st [] = st"
| "handle_all is_url st (r # rs) = handle_all is_url (handle is_url st r) rs"

text \<open>Every session is stored under its own identifier, and no identifier is empty.\<close>

definition store_ok :: "store \<Rightarrow> bool" where
  "store_ok st = (\<forall>k s. st k = Some s \<longrightarrow> id_session s = k \<and> k \<noteq> [])"

section \<open>Properties of the screenshot endpoint\<close>






section \<open>Properties of the language-model wrappers\<close>


text \<open>
  Claim C6, as the code has it.  When the model answers with text \<open>reply\<close>: no URL when
  the trimmed reply is the sentinel; otherwise the parsed, normalised trimmed reply; when
  it does not parse and does not start with \<open>http://\<close> or \<open>https://\<close>, the parse of
  \<open>https://\<close> before the trimmed reply, or no URL when that fails too; and no URL when
  it does not parse and starts with one of the two.
\<close>

theorem url_extraction_cases:
  assumes "text_result resp = Inr reply"
  shows
    "(trim reply = ''NO_URL_FOUND'' \<longrightarrow> extractUrlFromPrompt new_URL (Inr resp) = Inr None)
     \<and> (trim reply \<noteq> ''NO_URL_FOUND'' \<and> new_URL (trim reply) = Some u
          \<longrightarrow> extractUrlFromPrompt new_URL (Inr resp) = Inr (Some u))
     \<and> (trim reply \<noteq> ''NO_URL_FOUND'' \<and> new_URL (trim reply) = None
            \<and> \<not> startsWith (trim reply) ''http://'' \<and> \<not> startsWith (trim reply) ''https://''
          \<longrightarrow> extractUrlFromPrompt new_URL (Inr resp)
                = Inr (new_URL (''https://'' @ trim reply)))
     \<and> (trim reply \<noteq> ''NO_URL_FOUND'' \<and> new_URL (trim reply) = None
            \<and> (startsWith (trim reply) ''http://'' \<or> startsWith (trim reply) ''https://'')
          \<longrightarrow> extractUrlFromPrompt new_URL (Inr resp) = Inr None)"
  using assms
  by (auto simp add: extractUrlFromPrompt_def try_catch_def Let_def split: option.splits)

theorem url_extraction_cases_witness:
  "extractUrlFromPrompt sample_new_URL
       (Inr \<lparr>text_result = Inr (''NO_URL_FOUND'' @ [CHR 0x0A]), calls_result = Inr None\<rparr>)
     = Inr None
   \<and> extractUrlFromPrompt sample_new_URL
       (Inr \<lparr>text_result = Inr ('' https://example.com''), calls_result = Inr None\<rparr>)
     = Inr (Some ''https://example.com/'')
   \<and> extractUrlFromPrompt sample_new_URL
       (Inr \<lparr>text_result = Inr (''github.com'' @ [CHR 0x0A]), calls_result = Inr None\<rparr>)
     = Inr (Some ''https://github.com/'')
   \<and> extractUrlFromPrompt sample_new_URL
       (Inr \<lparr>text_result = Inr ''https://exa mple'', calls_result = Inr None\<rparr>)
     = Inr None"
proof -
  show ?thesis
    using
      url_extraction_cases [of "\<lparr>text_result = Inr (''NO_URL_FOUND'' @ [CHR 0x0A]), calls_result = Inr None\<rparr>"
        "''NO_URL_FOUND'' @ [CHR 0x0A]" sample_new_URL]
      url_extraction_cases [of "\<lparr>text_result = Inr ('' https://example.com''), calls_result = Inr None\<rparr>"
        "'' https://example.com''" sample_new_URL "''https://example.com/''"]
      url_extraction_cases [of "\<lparr>text_result = Inr (''github.com'' @ [CHR 0x0A]), calls_result = Inr None\<rparr>"
        "''github.com'' @ [CHR 0x0A]" sample_new_URL]
      url_extraction_cases [of "\<lparr>text_result = Inr ''https://exa mple'', calls_result = Inr None\<rparr>"
        "''https://exa mple''" sample_new_URL]
    by (simp add: trim_def js_whitespace_def sample_new_URL_def startsWith_def)
qed

text \<open>
  With the sentinel compared before trimming, a reply of the sentinel and a line feed
  would go on to the parser and come back as a URL; the code answers that there is none.
\<close>

theorem url_extraction_sentinel_counterexample:
  "extractUrlFromPrompt sample_new_URL
       (Inr \<lparr>text_result = Inr (''NO_URL_FOUND'' @ [CHR 0x0A]), calls_result = Inr None\<rparr>)
     = Inr None
   \<and> url_extraction_claimed sample_new_URL (''NO_URL_FOUND'' @ [CHR 0x0A])
     = Some ''https://no_url_found/''"
  by (simp add: extractUrlFromPrompt_def try_catch_def url_extraction_claimed_def
        trim_def js_whitespace_def sample_new_URL_def startsWith_def)

section \<open>Properties of the history lookup and of request validation\<close>

text \<open>
  Claim C8, as the code has it.  The history lookup answers 400 when the query has no
  \<open>sessionId\<close> or an empty one, 404 when a non-empty \<open>sessionId\<close> names no session,
  and otherwise 200 with the identifier, the messages in their order and the two dates
  of the session; the store is the same after the lookup.
\<close>

theorem history_lookup:
  "(q = None \<or> q = Some []
      \<longrightarrow> snd (chat_GET st q)
            = \<lparr>status = 400, payload = HistoryError ''Session ID is required''\<rparr>)
   \<and> (q = Some s \<and> s \<noteq> [] \<and> st s = None
      \<longrightarrow> snd (chat_GET st q) = \<lparr>status = 404, payload = HistoryError ''Session not found''\<rparr>)
   \<and> (q = Some s \<and> s \<noteq> [] \<and> st s = Some session
      \<longrightarrow> snd (chat_GET st q)
            = \<lparr>status = 200,
               payload = HistoryOk (id_session session) (messages session)
                           (createdAt session) (updatedAt session)\<rparr>)
   \<and> fst (chat_GET st q) = st"
  by (auto simp add: chat_GET_def split: option.splits)

theorem history_lookup_witness:
  "status (snd (chat_GET one_session None)) = 400
   \<and> status (snd (chat_GET one_session (Some ''xyz''))) = 404
   \<and> snd (chat_GET one_session (Some ''abc''))
       = \<lparr>status = 200,
          payload = HistoryOk ''abc'' (messages sample_session) 5 6\<rparr>
   \<and> fst (chat_GET one_session (Some ''abc'')) = one_session"
  using history_lookup [of None one_session]
    history_lookup [of "Some ''xyz''" one_session "''xyz''"]
    history_lookup [of "Some ''abc''" one_session "''abc''" sample_session]
  by (simp add: one_session_def no_sessions_def sample_session_def)

text \<open>
  A \<open>sessionId\<close> that is present and empty names no session, and the answer is 400, not
  404.
\<close>

theorem history_empty_id_counterexample:
  "no_sessions [] = None
   \<and> snd (chat_GET no_sessions (Some []))
       = \<lparr>status = 400, payload = HistoryError ''Session ID is required''\<rparr>"
  by (simp add: chat_GET_def no_sessions_def)

lemma screenshot_POST_invalid:
  "Option.bind body (RequestSchema_parse is_url) = None \<Longrightarrow>
     screenshot_POST is_url body run
       = (\<lparr>status = 400, payload = ShotFailure ''Invalid request body or URL.''\<rparr>, [])"
  by (simp add: screenshot_POST_def)

lemma RequestSchema_rejects_malformed:
  "\<not> is_url u \<Longrightarrow> RequestSchema_parse is_url (JObj [(''url'', JStr u)]) = None"
  by (simp add: RequestSchema_parse_def)

lemma chat_POST_invalid:
  "Option.bind body MessageSchema_parse = None \<Longrightarrow>
     chat_POST is_url st body env
       = (st, \<lparr>status = 500, payload = ChatError (reject_message env)\<rparr>, [])"
  by (simp add: chat_POST_def)

text \<open>
  Claim C2 at an empty message.  The chat endpoint answers a body whose message is empty
  with status 500; it leaves the store as it was, and calls neither the model nor the
  screenshot endpoint.  (The screenshot endpoint answers a malformed URL with 400 and
  spawns nothing: \<open>screenshot_POST_invalid\<close>.)
\<close>

theorem chat_empty_message_status:
  "chat_POST is_url st (Some (JObj [(''sessionId'', JNull), (''message'', JStr [])])) env
     = (st, \<lparr>status = 500, payload = ChatError (reject_message env)\<rparr>, [])"
  by (simp add: chat_POST_def MessageSchema_parse_def)

section \<open>The chat turn\<close>

lemma generateChatResponse_returns:
  "\<exists>r. generateChatResponse msgs out = Inr r"
  by (simp add: generateChatResponse_def try_catch_def
        split: sum.splits option.splits list.splits)

lemma userMessage_fields:
  "role (userMessage message env) = User"
  "content (userMessage message env) = message"
  "timestamp (userMessage message env) = Some (now_user env)"
  "isScreenshot (userMessage message env) = None"
  "screenshotUrl (userMessage message env) = None"
  "screenshotBase64 (userMessage message env) = None"
  by (simp_all add: userMessage_def)

lemma extracted_url_no_intent:
  "\<not> is_intent r \<Longrightarrow> extracted_url r = Inr UrlNull"
  by (simp add: is_intent_def extracted_url_def split: option.splits)

lemma extracted_url_intent:
  "extracted_url r = Inr v \<Longrightarrow> v \<noteq> UrlNull \<Longrightarrow> is_intent r"
  by (auto simp add: is_intent_def extracted_url_def split: option.splits if_splits)

lemma assistantMessage_shape:
  assumes "assistantMessage is_url r v env = (am, effs)"
  shows "role am = Assistant"
    and "timestamp am = Some (now_assistant env)"
    and "screenshotUrl am = None \<longleftrightarrow> screenshotBase64 am = None"
    and "isScreenshot am = Some True \<longleftrightarrow> screenshotUrl am \<noteq> None"
    and "isScreenshot am = None \<longleftrightarrow> screenshotUrl am = None"
  using assms
  by (auto simp add: assistantMessage_def text_message_def
        split: if_splits url_value.splits prod.splits sum.splits shot_body.splits)

text \<open>When the screenshot succeeds the message carries the URL and the payload.\<close>

lemma assistantMessage_success:
  assumes "is_intent r" and "url \<noteq> []"
    and "fetch_screenshot is_url url (fetched env) = (Inr (ShotSuccess d), effs')"
  shows "assistantMessage is_url r (UrlString url) env
           = (\<lparr>role = Assistant, content = text_r r, timestamp = Some (now_assistant env),
               isScreenshot = Some True, screenshotUrl = Some url,
               screenshotBase64 = Some d\<rparr>, effs')"
  using assms by (simp add: assistantMessage_def truthy_def)

text \<open>In every other branch it carries neither.\<close>

lemma assistantMessage_plain:
  assumes "assistantMessage is_url r v env = (am, effs)"
    and "\<not> (\<exists>url d effs'. is_intent r \<and> v = UrlString url \<and> url \<noteq> []
              \<and> fetch_screenshot is_url url (fetched env) = (Inr (ShotSuccess d), effs'))"
  shows "screenshotUrl am = None \<and> screenshotBase64 am = None \<and> isScreenshot am = None"
  using assms
  by (auto simp add: assistantMessage_def text_message_def truthy_def
        split: if_splits url_value.splits prod.splits sum.splits shot_body.splits)

text \<open>
  The request to the screenshot endpoint succeeds exactly when it is delivered, the URL
  passes the endpoint's validation and the helper closes with code zero, no error and
  some output, which is then the payload.
\<close>

lemma fetch_screenshot_success:
  "fetch_screenshot is_url url f = (Inr (ShotSuccess d), effs')
     \<longleftrightarrow> (\<exists>run. f = FetchDelivers run \<and> is_url url
            \<and> processError (collect (events run)) = None \<and> exit_code run = Some 0
            \<and> stdoutData (collect (events run)) = d \<and> d \<noteq> []
            \<and> effs' = [FetchScreenshot url, Spawn url])"
  by (cases f)
     (auto simp add: fetch_screenshot_def screenshot_POST_def RequestSchema_parse_def on_close_def
        split: option.splits if_splits)

text \<open>
  A turn with a valid body: the model's answer is read, and then either reading the URL
  throws and the turn answers 500 with the user's message pushed, or the turn answers
  200 with the assistant's message pushed after it.
\<close>

lemma chat_POST_valid:
  assumes "Option.bind body MessageSchema_parse = Some (sid, message)"
    and "resolve_session st sid env = (st1, key, session)"
  shows "\<exists>r. generateChatResponse (messages session @ [userMessage message env]) (llm env) = Inr r
           \<and> (\<forall>e. extracted_url r = Inl e \<longrightarrow>
                 chat_POST is_url st body env
                   = (st1(key \<mapsto> session\<lparr>messages := messages session @ [userMessage message env]\<rparr>),
                      \<lparr>status = 500, payload = ChatError e\<rparr>, [LlmCall]))
           \<and> (\<forall>v. extracted_url r = Inr v \<longrightarrow>
                 (\<exists>am effs.
                    assistantMessage is_url r v env = (am, effs)
                    \<and> chat_POST is_url st body env
                        = (st1(key \<mapsto> session\<lparr>messages :=
                                   messages session @ [userMessage message env, am]\<rparr>),
                           \<lparr>status = 200,
                            payload = ChatOk \<lparr>sessionId = id_session session, response = am,
                                              extractedUrl = v,
                                              isScreenshotIntent = is_intent r\<rparr>\<rparr>,
                           LlmCall # effs)))"
proof -
  obtain r where r: "generateChatResponse (messages session @ [userMessage message env]) (llm env) = Inr r"
    using generateChatResponse_returns by blast
  have thrown: "chat_POST is_url st body env
                   = (st1(key \<mapsto> session\<lparr>messages := messages session @ [userMessage message env]\<rparr>),
                      \<lparr>status = 500, payload = ChatError e\<rparr>, [LlmCall])"
    if "extracted_url r = Inl e" for e
    using assms r that by (simp add: chat_POST_def Let_def)
  have answered: "\<exists>am effs.
                    assistantMessage is_url r v env = (am, effs)
                    \<and> chat_POST is_url st body env
                        = (st1(key \<mapsto> session\<lparr>messages :=
                                   messages session @ [userMessage message env, am]\<rparr>),
                           \<lparr>status = 200,
                            payload = ChatOk \<lparr>sessionId = id_session session, response = am,
                                              extractedUrl = v,
                                              isScreenshotIntent = is_intent r\<rparr>\<rparr>,
                           LlmCall # effs)"
    if v: "extracted_url r = Inr v" for v
  proof -
    obtain am effs where am: "assistantMessage is_url r v env = (am, effs)"
      by (cases "assistantMessage is_url r v env") auto
    show ?thesis using assms r v am by (simp add: chat_POST_def Let_def)
  qed
  from r thrown answered show ?thesis by blast
qed

text \<open>What a turn with a valid body leaves in the store, on either path.\<close>

lemma chat_POST_store:
  assumes p: "Option.bind body MessageSchema_parse = Some (sid, message)"
    and rs: "resolve_session st sid env = (st1, key, session)"
  shows "\<exists>ms. fst (chat_POST is_url st body env)
                 = st1(key \<mapsto> session\<lparr>messages :=
                            messages session @ userMessage message env # ms\<rparr>)
              \<and> length ms \<le> 1 \<and> list_all paired ms
              \<and> list_all (\<lambda>m. role m = Assistant) ms
              \<and> (length ms = 1 \<longleftrightarrow> status (fst (snd (chat_POST is_url st body env))) = 200)
              \<and> (\<forall>code ok effs.
                    snd (chat_POST is_url st body env)
                      = (\<lparr>status = code, payload = ChatOk ok\<rparr>, effs)
                    \<longrightarrow> code = 200 \<and> sessionId ok = id_session session
                        \<and> ms = [response ok])"
proof -
  from chat_POST_valid [OF p rs, of is_url]
  obtain r where
    thrown: "\<And>e. extracted_url r = Inl e \<Longrightarrow>
                 chat_POST is_url st body env
                   = (st1(key \<mapsto> session\<lparr>messages := messages session @ [userMessage message env]\<rparr>),
                      \<lparr>status = 500, payload = ChatError e\<rparr>, [LlmCall])"
    and answered: "\<And>v. extracted_url r = Inr v \<Longrightarrow>
                 (\<exists>am effs.
                    assistantMessage is_url r v env = (am, effs)
                    \<and> chat_POST is_url st body env
                        = (st1(key \<mapsto> session\<lparr>messages :=
                                   messages session @ [userMessage message env, am]\<rparr>),
                           \<lparr>status = 200,
                            payload = ChatOk \<lparr>sessionId = id_session session, response = am,
                                              extractedUrl = v,
                                              isScreenshotIntent = is_intent r\<rparr>\<rparr>,
                           LlmCall # effs))"
    by blast
  show ?thesis
  proof (cases "extracted_url r")
    case (Inl e)
    from thrown [OF Inl] show ?thesis
      by (intro exI [of _ "[]"]) simp
  next
    case (Inr v)
    from answered [OF Inr] obtain am effs where am: "assistantMessage is_url r v env = (am, effs)"
      and post: "chat_POST is_url st body env
                        = (st1(key \<mapsto> session\<lparr>messages :=
                                   messages session @ [userMessage message env, am]\<rparr>),
                           \<lparr>status = 200,
                            payload = ChatOk \<lparr>sessionId = id_session session, response = am,
                                              extractedUrl = v,
                                              isScreenshotIntent = is_intent r\<rparr>\<rparr>,
                           LlmCall # effs)"
      by blast
    from assistantMessage_shape [OF am] post show ?thesis
      by (intro exI [of _ "[am]"]) (simp add: paired_def)
  qed
qed

lemma resolve_session_reuse:
  assumes "s \<noteq> []" and "st s = Some e"
  shows "resolve_session st (Some s) env
           = (st(s \<mapsto> e\<lparr>updatedAt := now_updated env\<rparr>), s, e\<lparr>updatedAt := now_updated env\<rparr>)"
  using assms by (simp add: resolve_session_def Let_def)

lemma resolve_session_new:
  assumes "sid = None \<or> sid = Some [] \<or> (\<exists>s. sid = Some s \<and> st s = None)"
  shows "resolve_session st sid env
           = (st(uuid env \<mapsto> \<lparr>id_session = uuid env, messages = [],
                                 createdAt = now_created env, updatedAt = now_updated env\<rparr>),
              uuid env,
              \<lparr>id_session = uuid env, messages = [],
               createdAt = now_created env, updatedAt = now_updated env\<rparr>)"
  using assms by (auto simp add: resolve_session_def Let_def)

lemma resolve_session_cases:
  "(\<exists>s e. sid = Some s \<and> s \<noteq> [] \<and> st s = Some e)
   \<or> (sid = None \<or> sid = Some [] \<or> (\<exists>s. sid = Some s \<and> st s = None))"
proof (cases sid)
  case None
  then show ?thesis by simp
next
  case (Some s)
  then show ?thesis by (cases "st s") auto
qed

lemma store_ok_update:
  "store_ok st \<Longrightarrow> id_session s = k \<Longrightarrow> k \<noteq> [] \<Longrightarrow> store_ok (st(k \<mapsto> s))"
  by (simp add: store_ok_def)

lemma store_ok_resolve:
  assumes ok: "store_ok st" and fresh: "uuid env \<noteq> []"
    and rs: "resolve_session st sid env = (st1, key, session)"
  shows "store_ok st1 \<and> st1 key = Some session \<and> id_session session = key \<and> key \<noteq> []"
  using resolve_session_cases [of sid st]
proof (elim disjE exE conjE)
  fix s e
  assume sid: "sid = Some s" and ne: "s \<noteq> []" and e: "st s = Some e"
  from ok e have ide: "id_session e = s" by (simp add: store_ok_def)
  have "resolve_session st (Some s) env
          = (st(s \<mapsto> e\<lparr>updatedAt := now_updated env\<rparr>), s, e\<lparr>updatedAt := now_updated env\<rparr>)"
    using ne e by (rule resolve_session_reuse)
  with rs sid have "(st1, key, session)
      = (st(s \<mapsto> e\<lparr>updatedAt := now_updated env\<rparr>), s, e\<lparr>updatedAt := now_updated env\<rparr>)"
    by auto
  then have eq: "st1 = st(s \<mapsto> e\<lparr>updatedAt := now_updated env\<rparr>)" "key = s"
    "session = e\<lparr>updatedAt := now_updated env\<rparr>"
    by (simp_all only: prod.inject)
  show ?thesis
    unfolding eq using store_ok_update [OF ok, of "e\<lparr>updatedAt := now_updated env\<rparr>" s] ide ne
    by simp
next
  let ?n = "\<lparr>id_session = uuid env, messages = [], createdAt = now_created env,
             updatedAt = now_updated env\<rparr>"
  have upd: "store_ok (st(uuid env \<mapsto> ?n))"
    using store_ok_update [OF ok, of ?n "uuid env"] fresh by simp
  {
    assume new: "sid = None \<or> sid = Some [] \<or> (\<exists>s. sid = Some s \<and> st s = None)"
    have "resolve_session st sid env = (st(uuid env \<mapsto> ?n), uuid env, ?n)"
      using new by (rule resolve_session_new)
    with rs have "(st1, key, session) = (st(uuid env \<mapsto> ?n), uuid env, ?n)"
      by auto
    then have eq: "st1 = st(uuid env \<mapsto> ?n)" "key = uuid env" "session = ?n"
      by (simp_all only: prod.inject)
    have ?thesis unfolding eq using upd fresh by simp
  }
  note new_case = this
  { assume "sid = None" then show ?thesis using new_case by blast }
  { assume "sid = Some []" then show ?thesis using new_case by blast }
  { fix s assume "sid = Some s" "st s = None" then show ?thesis using new_case by blast }
qed

lemma store_ok_chat_POST:
  assumes "store_ok st" and "uuid env \<noteq> []"
  shows "store_ok (fst (chat_POST is_url st body env))"
proof (cases "Option.bind body MessageSchema_parse")
  case None
  then show ?thesis using assms by (simp add: chat_POST_invalid)
next
  case (Some p)
  obtain sid message where p: "Option.bind body MessageSchema_parse = Some (sid, message)"
    using Some by (cases p) auto
  obtain st1 key session where rs: "resolve_session st sid env = (st1, key, session)"
    by (cases "resolve_session st sid env") auto
  from store_ok_resolve [OF assms rs]
  have ok1: "store_ok st1" and key: "id_session session = key" "key \<noteq> []" by auto
  from chat_POST_store [OF p rs, of is_url]
  obtain ms where
    "fst (chat_POST is_url st body env)
       = st1(key \<mapsto> session\<lparr>messages := messages session @ userMessage message env # ms\<rparr>)"
    by blast
  then show ?thesis using ok1 key by (auto simp add: store_ok_def)
qed

section \<open>Properties of the chat turn\<close>

text \<open>
  Claim C9.  The assistant message that a chat turn composes and appends carries the
  screenshot URL and the base64 payload together or carries neither.  When the model
  asked for a screenshot of a usable URL and the screenshot endpoint answered with
  success, it carries both: the URL asked for and the payload answered (the output of a
  helper that closed with code zero).  In every other branch it carries neither, and no
  screenshot flag.  The message is the last one of the session that the answer names.
\<close>

theorem assistant_screenshot_fields_paired:
  assumes "chat_POST is_url st body env = (st', \<lparr>status = code, payload = ChatOk ok\<rparr>, effs)"
  shows "(screenshotUrl (response ok) = None \<longleftrightarrow> screenshotBase64 (response ok) = None)
     \<and> (\<forall>url d effs'.
           isScreenshotIntent ok \<and> extractedUrl ok = UrlString url \<and> url \<noteq> []
           \<and> fetch_screenshot is_url url (fetched env) = (Inr (ShotSuccess d), effs')
           \<longrightarrow> screenshotUrl (response ok) = Some url
               \<and> screenshotBase64 (response ok) = Some d
               \<and> isScreenshot (response ok) = Some True)
     \<and> (\<forall>url run.
           isScreenshotIntent ok \<and> extractedUrl ok = UrlString url \<and> url \<noteq> [] \<and> is_url url
           \<and> fetched env = FetchDelivers run
           \<and> processError (collect (events run)) = None \<and> exit_code run = Some 0
           \<and> stdoutData (collect (events run)) \<noteq> []
           \<longrightarrow> screenshotUrl (response ok) = Some url
               \<and> screenshotBase64 (response ok) = Some (stdoutData (collect (events run)))
               \<and> isScreenshot (response ok) = Some True)
     \<and> (\<not> (\<exists>url d effs'.
              isScreenshotIntent ok \<and> extractedUrl ok = UrlString url \<and> url \<noteq> []
              \<and> fetch_screenshot is_url url (fetched env) = (Inr (ShotSuccess d), effs'))
           \<longrightarrow> screenshotUrl (response ok) = None
               \<and> screenshotBase64 (response ok) = None
               \<and> isScreenshot (response ok) = None)
     \<and> role (response ok) = Assistant
     \<and> (\<exists>key s ms. st' key = Some s \<and> id_session s = sessionId ok
            \<and> messages s = ms @ [response ok])"
proof (cases "Option.bind body MessageSchema_parse")
  case None
  then show ?thesis using assms by (simp add: chat_POST_invalid)
next
  case (Some p)
  obtain sid message where p: "Option.bind body MessageSchema_parse = Some (sid, message)"
    using Some by (cases p) auto
  obtain st1 key session where rs: "resolve_session st sid env = (st1, key, session)"
    by (cases "resolve_session st sid env") auto
  from chat_POST_valid [OF p rs, of is_url]
  obtain r where
    thrown: "\<And>e. extracted_url r = Inl e \<Longrightarrow>
                 chat_POST is_url st body env
                   = (st1(key \<mapsto> session\<lparr>messages := messages session @ [userMessage message env]\<rparr>),
                      \<lparr>status = 500, payload = ChatError e\<rparr>, [LlmCall])"
    and answered: "\<And>v. extracted_url r = Inr v \<Longrightarrow>
                 (\<exists>am effs.
                    assistantMessage is_url r v env = (am, effs)
                    \<and> chat_POST is_url st body env
                        = (st1(key \<mapsto> session\<lparr>messages :=
                                   messages session @ [userMessage message env, am]\<rparr>),
                           \<lparr>status = 200,
                            payload = ChatOk \<lparr>sessionId = id_session session, response = am,
                                              extractedUrl = v,
                                              isScreenshotIntent = is_intent r\<rparr>\<rparr>,
                           LlmCall # effs))"
    by blast
  obtain v where v: "extracted_url r = Inr v"
  proof (cases "extracted_url r")
    case (Inl e)
    from thrown [OF Inl] assms show ?thesis by simp
  next
    case (Inr v)
    then show ?thesis by (rule that)
  qed
  from answered [OF v] obtain am effs0 where am: "assistantMessage is_url r v env = (am, effs0)"
    and post: "chat_POST is_url st body env
       = (st1(key \<mapsto> session\<lparr>messages := messages session @ [userMessage message env, am]\<rparr>),
          \<lparr>status = 200,
           payload = ChatOk \<lparr>sessionId = id_session session, response = am,
                             extractedUrl = v, isScreenshotIntent = is_intent r\<rparr>\<rparr>,
          LlmCall # effs0)"
    by blast
  from post assms have ok: "ok = \<lparr>sessionId = id_session session, response = am,
                             extractedUrl = v, isScreenshotIntent = is_intent r\<rparr>"
    and st': "st' = st1(key \<mapsto> session\<lparr>messages := messages session @ [userMessage message env, am]\<rparr>)"
    by auto
  have 1: "screenshotUrl am = None \<longleftrightarrow> screenshotBase64 am = None"
    and 5: "role am = Assistant"
    using assistantMessage_shape [OF am] by auto
  have 2: "screenshotUrl am = Some url \<and> screenshotBase64 am = Some d \<and> isScreenshot am = Some True"
    if "is_intent r" "v = UrlString url" "url \<noteq> []"
      "fetch_screenshot is_url url (fetched env) = (Inr (ShotSuccess d), effs')" for url d effs'
    using assistantMessage_success [OF that(1) that(3) that(4)] am that(2) by auto
  have 3: "screenshotUrl am = Some url
             \<and> screenshotBase64 am = Some (stdoutData (collect (events run)))
             \<and> isScreenshot am = Some True"
    if "is_intent r" "v = UrlString url" "url \<noteq> []" "is_url url" "fetched env = FetchDelivers run"
      "processError (collect (events run)) = None" "exit_code run = Some 0"
      "stdoutData (collect (events run)) \<noteq> []" for url run
  proof -
    have "fetch_screenshot is_url url (fetched env)
            = (Inr (ShotSuccess (stdoutData (collect (events run)))), [FetchScreenshot url, Spawn url])"
      using that by (simp add: fetch_screenshot_success)
    from 2 [OF that(1) that(2) that(3) this] show ?thesis .
  qed
  have 4: "screenshotUrl am = None \<and> screenshotBase64 am = None \<and> isScreenshot am = None"
    if "\<not> (\<exists>url d effs'. is_intent r \<and> v = UrlString url \<and> url \<noteq> []
              \<and> fetch_screenshot is_url url (fetched env) = (Inr (ShotSuccess d), effs'))"
    using assistantMessage_plain [OF am that] .
  have 6: "\<exists>key s ms. st' key = Some s \<and> id_session s = sessionId ok
            \<and> messages s = ms @ [response ok]"
    unfolding st' ok
    by (rule exI [of _ key],
        rule exI [of _ "session\<lparr>messages := messages session @ [userMessage message env, am]\<rparr>"],
        rule exI [of _ "messages session @ [userMessage message env]"]) simp
  show ?thesis
    unfolding ok chat_ok.simps
    using 1 2 3 4 5 6 [unfolded ok chat_ok.simps] by blast
qed

theorem assistant_screenshot_fields_paired_witness:
  "snd (chat_POST sample_is_url no_sessions
         (Some (JObj [(''message'', JStr ''show me example.com'')])) sample_shot_env)
     = (\<lparr>status = 200,
         payload = ChatOk \<lparr>sessionId = uuid sample_shot_env,
           response = \<lparr>role = Assistant, content = ''Here it is.'', timestamp = Some 2005,
                        isScreenshot = Some True, screenshotUrl = Some ''https://example.com'',
                        screenshotBase64 = Some ''aGk=''\<rparr>,
           extractedUrl = UrlString ''https://example.com'', isScreenshotIntent = True\<rparr>\<rparr>,
        [LlmCall, FetchScreenshot ''https://example.com'', Spawn ''https://example.com''])
   \<and> fetch_screenshot sample_is_url ''https://example.com'' (fetched sample_shot_env)
     = (Inr (ShotSuccess ''aGk=''),
        [FetchScreenshot ''https://example.com'', Spawn ''https://example.com''])"
proof -
  have run: "snd (chat_POST sample_is_url no_sessions
         (Some (JObj [(''message'', JStr ''show me example.com'')])) sample_shot_env)
     = (\<lparr>status = 200,
         payload = ChatOk \<lparr>sessionId = uuid sample_shot_env,
           response = \<lparr>role = Assistant, content = ''Here it is.'', timestamp = Some 2005,
                        isScreenshot = Some True, screenshotUrl = Some ''https://example.com'',
                        screenshotBase64 = Some ''aGk=''\<rparr>,
           extractedUrl = UrlString ''https://example.com'', isScreenshotIntent = True\<rparr>\<rparr>,
        [LlmCall, FetchScreenshot ''https://example.com'', Spawn ''https://example.com''])"
    by (simp add: chat_POST_def MessageSchema_parse_def resolve_session_def sample_shot_env_def
          generateChatResponse_def try_catch_def assistantMessage_def is_intent_def
          extracted_url_def truthy_def fetch_screenshot_def screenshot_POST_def
          RequestSchema_parse_def sample_is_url_def startsWith_def js_whitespace_def
          collect_def initial_state_def on_close_def userMessage_def Let_def)
  have shot: "fetch_screenshot sample_is_url ''https://example.com'' (fetched sample_shot_env)
     = (Inr (ShotSuccess ''aGk=''),
        [FetchScreenshot ''https://example.com'', Spawn ''https://example.com''])"
    by (simp add: sample_shot_env_def fetch_screenshot_def screenshot_POST_def
          RequestSchema_parse_def sample_is_url_def startsWith_def js_whitespace_def
          collect_def initial_state_def on_close_def)
  from run obtain st' where
    "chat_POST sample_is_url no_sessions
         (Some (JObj [(''message'', JStr ''show me example.com'')])) sample_shot_env
     = (st', \<lparr>status = 200,
         payload = ChatOk \<lparr>sessionId = uuid sample_shot_env,
           response = \<lparr>role = Assistant, content = ''Here it is.'', timestamp = Some 2005,
                        isScreenshot = Some True, screenshotUrl = Some ''https://example.com'',
                        screenshotBase64 = Some ''aGk=''\<rparr>,
           extractedUrl = UrlString ''https://example.com'', isScreenshotIntent = True\<rparr>\<rparr>,
        [LlmCall, FetchScreenshot ''https://example.com'', Spawn ''https://example.com''])"
    by (cases "chat_POST sample_is_url no_sessions
         (Some (JObj [(''message'', JStr ''show me example.com'')])) sample_shot_env") auto
  from assistant_screenshot_fields_paired [OF this] run shot
  show ?thesis by simp
qed

lemma chat_POST_reuse_store:
  assumes p: "Option.bind body MessageSchema_parse = Some (Some k, message)"
    and ne: "k \<noteq> []" and s: "st k = Some s"
  shows "\<exists>ms. fst (chat_POST is_url st body env)
                = st(k \<mapsto> s\<lparr>updatedAt := now_updated env,
                             messages := messages s @ userMessage message env # ms\<rparr>)
              \<and> length ms \<le> 1 \<and> list_all paired ms
              \<and> list_all (\<lambda>m. role m = Assistant) ms
              \<and> (length ms = 1 \<longleftrightarrow> status (fst (snd (chat_POST is_url st body env))) = 200)
              \<and> (\<forall>code ok effs.
                    snd (chat_POST is_url st body env)
                      = (\<lparr>status = code, payload = ChatOk ok\<rparr>, effs)
                    \<longrightarrow> code = 200 \<and> sessionId ok = id_session s
                        \<and> ms = [response ok])"
proof -
  have rs: "resolve_session st (Some k) env
              = (st(k \<mapsto> s\<lparr>updatedAt := now_updated env\<rparr>), k, s\<lparr>updatedAt := now_updated env\<rparr>)"
    using ne s by (rule resolve_session_reuse)
  from chat_POST_store [OF p rs, of is_url] show ?thesis by auto
qed

lemma chat_POST_new_store:
  assumes p: "Option.bind body MessageSchema_parse = Some (sid, message)"
    and new: "sid = None \<or> sid = Some [] \<or> (\<exists>s. sid = Some s \<and> st s = None)"
  shows "\<exists>ms. fst (chat_POST is_url st body env)
                = st(uuid env \<mapsto> \<lparr>id_session = uuid env,
                                      messages = userMessage message env # ms,
                                      createdAt = now_created env, updatedAt = now_updated env\<rparr>)
              \<and> length ms \<le> 1 \<and> list_all paired ms"
proof -
  let ?n = "\<lparr>id_session = uuid env, messages = [], createdAt = now_created env,
             updatedAt = now_updated env\<rparr>"
  have rs: "resolve_session st sid env = (st(uuid env \<mapsto> ?n), uuid env, ?n)"
    using new by (rule resolve_session_new)
  from chat_POST_store [OF p rs, of is_url] show ?thesis by auto
qed

text \<open>
  After a turn that succeeded and returned a session id, the next turn with that id and a
  valid message keeps the sessions of the store, and leaves the session with the user's
  message appended and, exactly when it answers 200, the assistant's message after it;
  its answer then carries the same id.
\<close>

lemma next_turn_appends:
  assumes ok: "store_ok st" and fresh: "uuid env \<noteq> []"
    and turnN: "chat_POST is_url st body env = (st', \<lparr>status = code, payload = ChatOk okN\<rparr>, effs)"
    and bodyN1: "Option.bind body' MessageSchema_parse = Some (Some (sessionId okN), message')"
  shows "\<exists>s s'' ms.
           st' (sessionId okN) = Some s
           \<and> fst (chat_POST is_url st' body' env') (sessionId okN) = Some s''
           \<and> messages s'' = messages s @ userMessage message' env' # ms
           \<and> role (userMessage message' env') = User
           \<and> content (userMessage message' env') = message'
           \<and> length ms \<le> 1
           \<and> list_all (\<lambda>m. role m = Assistant) ms
           \<and> (length ms = 1 \<longleftrightarrow> status (fst (snd (chat_POST is_url st' body' env'))) = 200)
           \<and> dom (fst (chat_POST is_url st' body' env')) = dom st'
           \<and> (\<forall>code' okN1 effs'.
                 snd (chat_POST is_url st' body' env')
                   = (\<lparr>status = code', payload = ChatOk okN1\<rparr>, effs')
                 \<longrightarrow> code' = 200 \<and> sessionId okN1 = sessionId okN \<and> ms = [response okN1])"
proof -
  have valid: "Option.bind body MessageSchema_parse \<noteq> None"
  proof
    assume "Option.bind body MessageSchema_parse = None"
    from chat_POST_invalid [OF this, of is_url st env] turnN show False by simp
  qed
  then obtain sid message where p: "Option.bind body MessageSchema_parse = Some (sid, message)"
    by (cases "Option.bind body MessageSchema_parse") auto
  obtain st1 key session where rs: "resolve_session st sid env = (st1, key, session)"
    by (cases "resolve_session st sid env") auto
  from store_ok_resolve [OF ok fresh rs]
  have key: "id_session session = key" "key \<noteq> []" by auto
  from chat_POST_valid [OF p rs, of is_url]
  obtain r where
    thrown: "\<And>e. extracted_url r = Inl e \<Longrightarrow>
                 chat_POST is_url st body env
                   = (st1(key \<mapsto> session\<lparr>messages := messages session @ [userMessage message env]\<rparr>),
                      \<lparr>status = 500, payload = ChatError e\<rparr>, [LlmCall])"
    and answered: "\<And>v. extracted_url r = Inr v \<Longrightarrow>
                 (\<exists>am effs.
                    assistantMessage is_url r v env = (am, effs)
                    \<and> chat_POST is_url st body env
                        = (st1(key \<mapsto> session\<lparr>messages :=
                                   messages session @ [userMessage message env, am]\<rparr>),
                           \<lparr>status = 200,
                            payload = ChatOk \<lparr>sessionId = id_session session, response = am,
                                              extractedUrl = v,
                                              isScreenshotIntent = is_intent r\<rparr>\<rparr>,
                           LlmCall # effs))"
    by blast
  obtain v where v: "extracted_url r = Inr v"
  proof (cases "extracted_url r")
    case (Inl e)
    from thrown [OF Inl] turnN show ?thesis by simp
  next
    case (Inr v)
    then show ?thesis by (rule that)
  qed
  from answered [OF v] turnN
  obtain am where st': "st' = st1(key \<mapsto> session\<lparr>messages := messages session @ [userMessage message env, am]\<rparr>)"
    and idN: "sessionId okN = id_session session"
    by auto
  let ?s = "session\<lparr>messages := messages session @ [userMessage message env, am]\<rparr>"
  have s: "st' key = Some ?s" by (simp add: st')
  have idk: "sessionId okN = key" using idN key by simp
  from bodyN1 idk have p': "Option.bind body' MessageSchema_parse = Some (Some key, message')"
    by simp
  from chat_POST_reuse_store [of body' key message' st' ?s is_url env'] p' key(2) s
  obtain ms where store: "fst (chat_POST is_url st' body' env')
                = st'(key \<mapsto> ?s\<lparr>updatedAt := now_updated env',
                             messages := messages ?s @ userMessage message' env' # ms\<rparr>)"
    and ms: "length ms \<le> 1" "list_all (\<lambda>m. role m = Assistant) ms"
      "length ms = 1 \<longleftrightarrow> status (fst (snd (chat_POST is_url st' body' env'))) = 200"
    and answer: "\<forall>code ok effs.
                    snd (chat_POST is_url st' body' env')
                      = (\<lparr>status = code, payload = ChatOk ok\<rparr>, effs)
                    \<longrightarrow> code = 200 \<and> sessionId ok = id_session ?s \<and> ms = [response ok]"
    by blast
  have dom: "dom (fst (chat_POST is_url st' body' env')) = dom st'"
    unfolding store using s by auto
  have ids: "id_session ?s = sessionId okN" using idN by simp
  have same: "\<forall>code' okN1 effs'.
                 snd (chat_POST is_url st' body' env')
                   = (\<lparr>status = code', payload = ChatOk okN1\<rparr>, effs')
                 \<longrightarrow> code' = 200 \<and> sessionId okN1 = sessionId okN \<and> ms = [response okN1]"
    using answer by (simp only: ids)
  let ?s'' = "?s\<lparr>updatedAt := now_updated env',
                   messages := messages ?s @ userMessage message' env' # ms\<rparr>"
  have a: "st' (sessionId okN) = Some ?s" using s idk by simp
  have b: "fst (chat_POST is_url st' body' env') (sessionId okN) = Some ?s''"
    unfolding store idk by simp
  have c: "messages ?s'' = messages ?s @ userMessage message' env' # ms" by simp
  show ?thesis
    apply (rule exI [of _ ?s])
    apply (rule exI [of _ ?s''])
    apply (rule exI [of _ ms])
    apply (intro conjI)
             apply (rule a)
            apply (rule b)
           apply (rule c)
          apply (rule userMessage_fields(1))
         apply (rule userMessage_fields(2))
        apply (rule ms(1))
       apply (rule ms(2))
      apply (rule ms(3))
     apply (rule dom)
    apply (rule same)
    done
qed


text \<open>
  Claim C3 at a function call without arguments.  A first turn succeeds, creates the
  session and returns its id.  The next turn is submitted with that id; the model answers
  with a \<open>take_screenshot\<close> call that has no \<open>args\<close>.  Reading \<open>args.url\<close> throws after the
  user's message was pushed: the turn answers 500 without a session id, and the session
  has grown by one message, not two.
\<close>

theorem turn_without_args_appends_one:
  "chat_POST sample_is_url no_sessions (Some (JObj [(''message'', JStr ''hi'')])) sample_env
     = (no_sessions(''3b241101-e2bb-4255-8caf-4136c566a962'' \<mapsto>
          \<lparr>id_session = ''3b241101-e2bb-4255-8caf-4136c566a962'',
           messages = [userMessage ''hi'' sample_env, text_message ''Hello!'' sample_env],
           createdAt = 1000, updatedAt = 1000\<rparr>),
        \<lparr>status = 200,
         payload = ChatOk \<lparr>sessionId = ''3b241101-e2bb-4255-8caf-4136c566a962'',
                           response = text_message ''Hello!'' sample_env,
                           extractedUrl = UrlNull, isScreenshotIntent = False\<rparr>\<rparr>,
        [LlmCall])
   \<and> chat_POST sample_is_url
         (no_sessions(''3b241101-e2bb-4255-8caf-4136c566a962'' \<mapsto>
            \<lparr>id_session = ''3b241101-e2bb-4255-8caf-4136c566a962'',
             messages = [userMessage ''hi'' sample_env, text_message ''Hello!'' sample_env],
             createdAt = 1000, updatedAt = 1000\<rparr>))
         (Some (JObj [(''sessionId'', JStr ''3b241101-e2bb-4255-8caf-4136c566a962''),
                      (''message'', JStr ''show me example.com'')]))
         sample_no_args_env
     = (no_sessions(''3b241101-e2bb-4255-8caf-4136c566a962'' \<mapsto>
          \<lparr>id_session = ''3b241101-e2bb-4255-8caf-4136c566a962'',
           messages = [userMessage ''hi'' sample_env, text_message ''Hello!'' sample_env,
                       \<lparr>role = User, content = ''show me example.com'', timestamp = Some 3001,
                        isScreenshot = None, screenshotUrl = None, screenshotBase64 = None\<rparr>],
           createdAt = 1000, updatedAt = 3000\<rparr>),
        \<lparr>status = 500,
         payload = ChatError ''Cannot read properties of undefined (reading 'url')''\<rparr>,
        [LlmCall])"
proof -
  have first: "chat_POST sample_is_url no_sessions (Some (JObj [(''message'', JStr ''hi'')])) sample_env
     = (no_sessions(''3b241101-e2bb-4255-8caf-4136c566a962'' \<mapsto>
          \<lparr>id_session = ''3b241101-e2bb-4255-8caf-4136c566a962'',
           messages = [userMessage ''hi'' sample_env, text_message ''Hello!'' sample_env],
           createdAt = 1000, updatedAt = 1000\<rparr>),
        \<lparr>status = 200,
         payload = ChatOk \<lparr>sessionId = ''3b241101-e2bb-4255-8caf-4136c566a962'',
                           response = text_message ''Hello!'' sample_env,
                           extractedUrl = UrlNull, isScreenshotIntent = False\<rparr>\<rparr>,
        [LlmCall])"
    by (simp add: chat_POST_def MessageSchema_parse_def resolve_session_def sample_env_def
          generateChatResponse_def try_catch_def assistantMessage_def is_intent_def
          extracted_url_def truthy_def Let_def userMessage_def text_message_def)
  have gen: "generateChatResponse msgs (llm sample_no_args_env)
               = Inr \<lparr>text_r = [], functionCall = Some \<lparr>fc_name = ''take_screenshot'',
                                                       fc_args = ArgsUndefined\<rparr>\<rparr>" for msgs
    by (simp add: generateChatResponse_def try_catch_def sample_no_args_env_def)
  have second: "chat_POST sample_is_url
         (no_sessions(''3b241101-e2bb-4255-8caf-4136c566a962'' \<mapsto>
            \<lparr>id_session = ''3b241101-e2bb-4255-8caf-4136c566a962'',
             messages = [userMessage ''hi'' sample_env, text_message ''Hello!'' sample_env],
             createdAt = 1000, updatedAt = 1000\<rparr>))
         (Some (JObj [(''sessionId'', JStr ''3b241101-e2bb-4255-8caf-4136c566a962''),
                      (''message'', JStr ''show me example.com'')]))
         sample_no_args_env
     = (no_sessions(''3b241101-e2bb-4255-8caf-4136c566a962'' \<mapsto>
          \<lparr>id_session = ''3b241101-e2bb-4255-8caf-4136c566a962'',
           messages = [userMessage ''hi'' sample_env, text_message ''Hello!'' sample_env,
                       \<lparr>role = User, content = ''show me example.com'', timestamp = Some 3001,
                        isScreenshot = None, screenshotUrl = None, screenshotBase64 = None\<rparr>],
           createdAt = 1000, updatedAt = 3000\<rparr>),
        \<lparr>status = 500,
         payload = ChatError ''Cannot read properties of undefined (reading 'url')''\<rparr>,
        [LlmCall])"
    by (simp add: chat_POST_def MessageSchema_parse_def resolve_session_def gen
          extracted_url_def type_error_message_def Let_def userMessage_def)
       (simp add: sample_no_args_env_def)
  from first second show ?thesis by (rule conjI)
qed

lemma handle_frame:
  assumes fresh: "fresh_uuid st r" and s: "st k = Some s"
  shows "\<exists>s'. handle is_url st r k = Some s' \<and> id_session s' = id_session s
           \<and> createdAt s' = createdAt s \<and> (\<exists>ms. messages s' = messages s @ ms)"
proof (cases r)
  case (GetHistory q)
  then show ?thesis using s by (simp add: chat_GET_def split: option.splits)
next
  case (PostChat body env)
  with fresh have unused: "st (uuid env) = None" by simp
  with s have differ: "k \<noteq> uuid env" by auto
  show ?thesis
  proof (cases "Option.bind body MessageSchema_parse")
    case None
    then show ?thesis using s PostChat by (simp add: chat_POST_invalid)
  next
    case (Some p)
    obtain sid message where p: "Option.bind body MessageSchema_parse = Some (sid, message)"
      using Some by (cases p) auto
    from resolve_session_cases [of sid st] show ?thesis
    proof (elim disjE exE conjE)
      fix k' e
      assume sid: "sid = Some k'" and ne: "k' \<noteq> []" and e: "st k' = Some e"
      from p sid have p': "Option.bind body MessageSchema_parse = Some (Some k', message)"
        by simp
      from chat_POST_reuse_store [of body k' message st e is_url env] p' ne e
      obtain ms where "fst (chat_POST is_url st body env)
           = st(k' \<mapsto> e\<lparr>updatedAt := now_updated env,
                         messages := messages e @ userMessage message env # ms\<rparr>)"
        by blast
      then show ?thesis using s e PostChat by (cases "k = k'") auto
    next
      {
        assume new: "sid = None \<or> sid = Some [] \<or> (\<exists>s. sid = Some s \<and> st s = None)"
        from chat_POST_new_store [OF p new, of is_url env]
        have ?thesis using s differ PostChat by auto
      }
      note new_case = this
      { assume "sid = None" then show ?thesis using new_case by blast }
      { assume "sid = Some []" then show ?thesis using new_case by blast }
      { fix x assume "sid = Some x" "st x = None" then show ?thesis using new_case by blast }
    qed
  qed
qed

lemma handle_all_frame:
  assumes "fresh_uuids is_url st reqs" and "st k = Some s"
  shows "\<exists>s'. handle_all is_url st reqs k = Some s' \<and> id_session s' = id_session s
           \<and> createdAt s' = createdAt s \<and> (\<exists>ms. messages s' = messages s @ ms)"
  using assms
proof (induction reqs arbitrary: st s)
  case Nil
  then show ?case by simp
next
  case (Cons r rs)
  from Cons.prems have fr: "fresh_uuid st r" and frs: "fresh_uuids is_url (handle is_url st r) rs"
    by simp_all
  from handle_frame [OF fr Cons.prems(2), of is_url]
  obtain s1 ms1 where s1: "handle is_url st r k = Some s1" "id_session s1 = id_session s"
    "createdAt s1 = createdAt s" "messages s1 = messages s @ ms1"
    by blast
  from Cons.IH [OF frs s1(1)]
  obtain s' ms' where "handle_all is_url (handle is_url st r) rs k = Some s'"
    "id_session s' = id_session s1" "createdAt s' = createdAt s1" "messages s' = messages s1 @ ms'"
    by blast
  with s1 show ?case by simp
qed

lemma store_ok_handle_all:
  assumes "fresh_uuids is_url st reqs" and "store_ok st"
  shows "store_ok (handle_all is_url st reqs)"
  using assms
proof (induction reqs arbitrary: st)
  case Nil
  then show ?case by simp
next
  case (Cons r rs)
  have "store_ok (handle is_url st r)"
  proof (cases r)
    case (PostChat body env)
    with Cons.prems show ?thesis by (simp add: store_ok_chat_POST)
  next
    case (GetHistory q)
    with Cons.prems show ?thesis by (simp add: chat_GET_def split: option.splits)
  qed
  with Cons show ?case by simp
qed

text \<open>
  Claim C10.  Along any sequence of chat turns and history lookups (with \<open>uuidv4\<close>
  giving identifiers that are not in use), a session that is in the store stays there
  with the id and the creation date it has.  A turn that reuses a session writes that
  session only, and of it only the update date and the messages, to which it appends the
  user's message and then at most the assistant's; a lookup writes nothing.
\<close>

theorem session_identity_frame:
  "(fresh_uuids is_url st reqs \<and> st k = Some s
      \<longrightarrow> (\<exists>s'. handle_all is_url st reqs k = Some s' \<and> id_session s' = id_session s
                 \<and> createdAt s' = createdAt s))
   \<and> (Option.bind body MessageSchema_parse = Some (Some k, message) \<and> k \<noteq> [] \<and> st k = Some s
      \<longrightarrow> (\<exists>ms. fst (chat_POST is_url st body env)
                   = st(k \<mapsto> s\<lparr>updatedAt := now_updated env,
                                messages := messages s @ userMessage message env # ms\<rparr>)
                \<and> length ms \<le> 1 \<and> list_all (\<lambda>m. role m = Assistant) ms
                \<and> (length ms = 1 \<longleftrightarrow> status (fst (snd (chat_POST is_url st body env))) = 200)))
   \<and> fst (chat_GET st q) = st"
proof (intro conjI impI)
  assume "fresh_uuids is_url st reqs \<and> st k = Some s"
  then show "\<exists>s'. handle_all is_url st reqs k = Some s' \<and> id_session s' = id_session s
                 \<and> createdAt s' = createdAt s"
    using handle_all_frame [of is_url st reqs k s] by blast
next
  assume "Option.bind body MessageSchema_parse = Some (Some k, message) \<and> k \<noteq> [] \<and> st k = Some s"
  then show "\<exists>ms. fst (chat_POST is_url st body env)
                   = st(k \<mapsto> s\<lparr>updatedAt := now_updated env,
                                messages := messages s @ userMessage message env # ms\<rparr>)
                \<and> length ms \<le> 1 \<and> list_all (\<lambda>m. role m = Assistant) ms
                \<and> (length ms = 1 \<longleftrightarrow> status (fst (snd (chat_POST is_url st body env))) = 200)"
    using chat_POST_reuse_store [of body k message st s is_url env] by blast
next
  show "fst (chat_GET st q) = st"
    by (simp add: chat_GET_def split: option.splits)
qed

theorem session_identity_frame_witness:
  "fresh_uuids sample_is_url one_session
      [PostChat (Some (JObj [(''sessionId'', JStr ''abc''), (''message'', JStr ''more'')])) sample_env,
       GetHistory (Some ''abc'')]
   \<and> one_session ''abc'' = Some sample_session
   \<and> (\<exists>s'. handle_all sample_is_url one_session
              [PostChat (Some (JObj [(''sessionId'', JStr ''abc''), (''message'', JStr ''more'')])) sample_env,
               GetHistory (Some ''abc'')] ''abc'' = Some s'
            \<and> id_session s' = ''abc'' \<and> createdAt s' = 5)
   \<and> (\<exists>ms. fst (chat_POST sample_is_url one_session
                    (Some (JObj [(''sessionId'', JStr ''abc''), (''message'', JStr ''more'')])) sample_env)
               = one_session(''abc'' \<mapsto> sample_session\<lparr>updatedAt := 1000,
                    messages := messages sample_session @ userMessage ''more'' sample_env # ms\<rparr>)
             \<and> length ms \<le> 1)"
proof -
  let ?body = "Some (JObj [(''sessionId'', JStr ''abc''), (''message'', JStr ''more'')])"
  let ?reqs = "[PostChat ?body sample_env, GetHistory (Some ''abc'')]"
  have fresh: "fresh_uuids sample_is_url one_session ?reqs"
    by (simp add: one_session_def no_sessions_def sample_env_def)
  have s: "one_session ''abc'' = Some sample_session"
    by (simp add: one_session_def)
  have p: "Option.bind ?body MessageSchema_parse = Some (Some ''abc'', ''more'')"
    by (simp add: MessageSchema_parse_def)
  have ids: "id_session sample_session = ''abc''" "createdAt sample_session = 5"
    "now_updated sample_env = 1000"
    by (simp_all add: sample_session_def sample_env_def)
  from session_identity_frame [of sample_is_url one_session ?reqs "''abc''" sample_session
         ?body "''more''" sample_env] fresh s p
  have h1: "\<exists>s'. handle_all sample_is_url one_session ?reqs ''abc'' = Some s'
             \<and> id_session s' = id_session sample_session \<and> createdAt s' = createdAt sample_session"
    and h2: "\<exists>ms. fst (chat_POST sample_is_url one_session ?body sample_env)
                   = one_session(''abc'' \<mapsto> sample_session\<lparr>updatedAt := now_updated sample_env,
                        messages := messages sample_session @ userMessage ''more'' sample_env # ms\<rparr>)
                \<and> length ms \<le> 1 \<and> list_all (\<lambda>m. role m = Assistant) ms
                \<and> (length ms = 1 \<longleftrightarrow> status (fst (snd (chat_POST sample_is_url one_session ?body sample_env))) = 200)"
    by blast+
  from h2 have g2: "\<exists>ms. fst (chat_POST sample_is_url one_session ?body sample_env)
                   = one_session(''abc'' \<mapsto> sample_session\<lparr>updatedAt := 1000,
                        messages := messages sample_session @ userMessage ''more'' sample_env # ms\<rparr>)
                \<and> length ms \<le> 1"
    unfolding ids by blast
  from h1 have g1: "\<exists>s'. handle_all sample_is_url one_session ?reqs ''abc'' = Some s'
             \<and> id_session s' = ''abc'' \<and> createdAt s' = 5"
    unfolding ids .
  from fresh s g1 g2 show ?thesis by (intro conjI)
qed

section \<open>The earlier chat turn\<close>

lemma validMessages_single:
  "role m = User \<Longrightarrow> validMessages [m] = [0]"
  by (simp add: validMessages_def)

lemma generateChatResponse_text_first_message:
  "role m = User \<Longrightarrow>
     fst (generateChatResponse_text [m] out) = [m\<lparr>content := context_prefix @ content m\<rparr>]"
  by (simp add: generateChatResponse_text_def validMessages_single)

text \<open>
  Claim C5 at a first message.  In the earlier turn (two model calls), a first message
  \<open>hello\<close> that asks for no screenshot is appended to the new session with that content,
  and \<open>generateChatResponse\<close> then rewrites the content of the stored message: the session
  holds the context text followed by \<open>hello\<close>.
\<close>

theorem first_message_rewritten:
  "userMessage ''hello'' sample_env
     = \<lparr>role = User, content = ''hello'', timestamp = Some 1001, isScreenshot = None,
        screenshotUrl = None, screenshotBase64 = None\<rparr>
   \<and> fst (chat_POST_twocall sample_is_url sample_new_URL no_sessions
           (Some (JObj [(''sessionId'', JNull), (''message'', JStr ''hello'')]))
           sample_env (reply_text ''NO'') (reply_text ''NO_URL_FOUND''))
         ''3b241101-e2bb-4255-8caf-4136c566a962''
     = Some \<lparr>id_session = ''3b241101-e2bb-4255-8caf-4136c566a962'',
              messages =
                [\<lparr>role = User, content = context_prefix @ ''hello'', timestamp = Some 1001,
                  isScreenshot = None, screenshotUrl = None, screenshotBase64 = None\<rparr>,
                 \<lparr>role = Assistant, content = ''Hello!'', timestamp = Some 1002,
                  isScreenshot = None, screenshotUrl = None, screenshotBase64 = None\<rparr>],
              createdAt = 1000, updatedAt = 1000\<rparr>
   \<and> context_prefix @ ''hello'' \<noteq> ''hello''"
proof -
  have intent: "detectScreenshotIntent (reply_text ''NO'') = Inr False"
    by (simp add: detectScreenshotIntent_def reply_text_def try_catch_def trim_def
          js_whitespace_def toUpperCase_def upper_char_def)
  have um: "role (userMessage ''hello'' sample_env) = User"
    by (simp add: userMessage_def)
  have gen: "generateChatResponse_text [userMessage ''hello'' sample_env] (llm sample_env)
               = ([(userMessage ''hello'' sample_env)\<lparr>content := context_prefix @ ''hello''\<rparr>],
                  Inr ''Hello!'')"
    using generateChatResponse_text_first_message [OF um, of "llm sample_env"]
    by (simp add: generateChatResponse_text_def try_catch_def sample_env_def userMessage_def
          prod_eq_iff)
  have differ: "context_prefix @ ''hello'' \<noteq> ''hello''"
    by (simp add: context_prefix_def)
  show ?thesis
    using differ
    by (simp add: chat_POST_twocall_def MessageSchema_parse_def resolve_session_def intent gen
          Let_def)
       (simp add: userMessage_def text_message_def sample_env_def)
qed

section \<open>The two chat turns compared\<close>








lemma variants_reject_alike:
  assumes "Option.bind body MessageSchema_parse = None"
  shows "fst (chat_POST_twocall is_url new_URL st body env intent_out url_out) = st"
    and "fst (chat_POST is_url st body env) = st"
    and "status (fst (snd (chat_POST_twocall is_url new_URL st body env intent_out url_out))) = 500"
    and "status (fst (snd (chat_POST is_url st body env))) = 500"
    and "snd (snd (chat_POST_twocall is_url new_URL st body env intent_out url_out)) = []"
    and "snd (snd (chat_POST is_url st body env)) = []"
  using assms by (simp_all add: chat_POST_twocall_def chat_POST_def)



















section \<open>Further properties: the rewritten screenshot handler, paired messages in the store\<close>

lemma screenshot_POST_rewritten_invalid:
  "Option.bind body (RequestSchema_parse is_url) = None \<Longrightarrow>
     screenshot_POST_rewritten is_url body errorMessage run
       = (Inl \<lparr>status = 400, payload = ShotFailure errorMessage\<rparr>, [])"
  by (simp add: screenshot_POST_rewritten_def)

lemma screenshot_POST_rewritten_valid:
  "Option.bind body (RequestSchema_parse is_url) = Some url \<Longrightarrow>
     screenshot_POST_rewritten is_url body errorMessage run
       = (Inr (fst (screenshot_POST is_url body run)), snd (screenshot_POST is_url body run))"
  by (simp add: screenshot_POST_rewritten_def screenshot_POST_def)

lemma paired_userMessage: "paired (userMessage message env)"
  by (simp add: paired_def userMessage_def)

lemma paired_assistantMessage:
  "assistantMessage is_url r v env = (am, effs) \<Longrightarrow> paired am"
  using assistantMessage_shape(3) [of is_url r v env am effs] by (simp add: paired_def)

lemma store_paired_update:
  "store_paired st \<Longrightarrow> list_all paired (messages s) \<Longrightarrow> store_paired (st(k \<mapsto> s))"
  by (simp add: store_paired_def)

lemma store_paired_chat_POST:
  assumes inv: "store_paired st"
  shows "store_paired (fst (chat_POST is_url st body env))"
proof (cases "Option.bind body MessageSchema_parse")
  case None
  then show ?thesis using inv by (simp add: chat_POST_invalid)
next
  case (Some p)
  obtain sid message where p: "Option.bind body MessageSchema_parse = Some (sid, message)"
    using Some by (cases p) auto
  obtain st1 key session where rs: "resolve_session st sid env = (st1, key, session)"
    by (cases "resolve_session st sid env") auto
  have st1: "store_paired st1"
    using resolve_session_cases [of sid st] rs inv
    by (auto simp add: resolve_session_def Let_def store_paired_def split: if_splits)
  have sess: "list_all paired (messages session)"
    using resolve_session_cases [of sid st] rs inv
    by (auto simp add: resolve_session_def Let_def store_paired_def split: if_splits)
  from chat_POST_store [OF p rs, of is_url]
  obtain ms where post: "fst (chat_POST is_url st body env)
       = st1(key \<mapsto> session\<lparr>messages := messages session @ userMessage message env # ms\<rparr>)"
    and ms: "list_all paired ms"
    by blast
  have "list_all paired (messages session @ userMessage message env # ms)"
    using sess paired_userMessage [of message env] ms by simp
  then show ?thesis
    unfolding post using st1 by (simp add: store_paired_update)
qed

lemma store_paired_handle_all:
  "store_paired st \<Longrightarrow> store_paired (handle_all is_url st reqs)"
proof (induction reqs arbitrary: st)
  case Nil
  then show ?case by simp
next
  case (Cons r rs)
  have "store_paired (handle is_url st r)"
  proof (cases r)
    case (PostChat body env)
    with Cons.prems show ?thesis by (simp add: store_paired_chat_POST)
  next
    case (GetHistory q)
    with Cons.prems show ?thesis by (simp add: chat_GET_def split: option.splits)
  qed
  then show ?case using Cons.IH by simp
qed

end
